theory Spec2Isabelle
  imports Main
begin

section \<open>Alert records\<close>

text \<open>
  An alert is a dictionary with the three keys \<^verbatim>\<open>"time"\<close>, \<^verbatim>\<open>"msg"\<close> and
  \<^verbatim>\<open>"type"\<close>, each holding a string. The severity tag is an untyped string in the
  source, so it is a \<^typ>\<open>string\<close> here: the render below can be handed any tag.
\<close>

record alert =
  time :: string
  msg :: string
  type :: string

text \<open>
  \<^verbatim>\<open>datetime.now()\<close> is an input of the script. Only its hour, minute and second
  reach the program, through \<^verbatim>\<open>strftime("%H:%M:%S")\<close>, which prints each field
  as two decimal digits, zero padded.
\<close>

record datetime =
  hour :: nat
  minute :: nat
  second :: nat

definition two_digits :: "nat \<Rightarrow> string" where
  "two_digits n = [''0123456789'' ! (n div 10 mod 10), ''0123456789'' ! (n mod 10)]"

definition strftime_HMS :: "datetime \<Rightarrow> string" where
  "strftime_HMS d =
     two_digits (hour d) @ '':'' @ two_digits (minute d) @ '':'' @ two_digits (second d)"

section \<open>The alert list\<close>

text \<open>The list literal of lines 29 to 32, in the order the literal gives.\<close>

definition seed_alerts :: "alert list" where
  "seed_alerts =
     [\<lparr>time = ''19:04:22'', msg = ''System Calibration Complete'', type = ''success''\<rparr>,
      \<lparr>time = ''19:10:05'', msg = ''Sensor Node 14 Active'', type = ''info''\<rparr>]"

text \<open>
  Python's \<^verbatim>\<open>list.insert(i, x)\<close>: a negative index counts from the end and is
  clamped at 0, an index beyond the end is clamped at the length. It never fails.
\<close>

definition list_insert :: "int \<Rightarrow> 'a \<Rightarrow> 'a list \<Rightarrow> 'a list" where
  "list_insert i x xs =
     (let n = int (length xs);
          j = (if i < 0 then max 0 (i + n) else min i n)
      in take (nat j) xs @ x # drop (nat j) xs)"

text \<open>Line 118: \<^verbatim>\<open>alerts.insert(0, new_alert)\<close>.\<close>

definition prepend :: "alert \<Rightarrow> alert list \<Rightarrow> alert list" where
  "prepend r xs = list_insert 0 r xs"

text \<open>Line 117: the dictionary built when the button is pressed.\<close>

definition new_alert :: "datetime \<Rightarrow> alert" where
  "new_alert now =
     \<lparr>time = strftime_HMS now, msg = ''Density Spike: Gate 4'', type = ''error''\<rparr>"

text \<open>Lines 117 and 118 together: the body of the button's \<^verbatim>\<open>if\<close>.\<close>

definition simulation_trigger :: "datetime \<Rightarrow> alert list \<Rightarrow> alert list" where
  "simulation_trigger now xs = prepend (new_alert now) xs"

text \<open>The button pressed once per element of \<open>ts\<close>, first element first.\<close>

fun triggers :: "datetime list \<Rightarrow> alert list \<Rightarrow> alert list" where
  "triggers [] xs = xs"
| "triggers (t # ts) xs = triggers ts (simulation_trigger t xs)"

text \<open>
  Python's slice \<^verbatim>\<open>xs[:stop]\<close>: a negative bound counts from the end, and the
  bound is clamped into the list. The result is a new list; \<open>xs\<close> is not touched.
\<close>

definition slice_to :: "int \<Rightarrow> 'a list \<Rightarrow> 'a list" where
  "slice_to stop xs =
     (let n = int (length xs);
          e = (if stop < 0 then max 0 (stop + n) else min stop n)
      in take (nat e) xs)"

text \<open>Line 120 reads \<^verbatim>\<open>alerts[:6]\<close>; \<open>topN\<close> is that slice for any bound.\<close>

definition topN :: "int \<Rightarrow> alert list \<Rightarrow> alert list" where
  "topN n xs = slice_to n xs"

section \<open>The incident feed\<close>

text \<open>
  What the render emits: one call of \<^verbatim>\<open>st.error\<close>, \<^verbatim>\<open>st.success\<close> or
  \<^verbatim>\<open>st.info\<close> per row, with the text of the f-string.
\<close>

datatype element = StError string | StSuccess string | StInfo string

definition row_text :: "alert \<Rightarrow> string" where
  "row_text a = ''**'' @ time a @ ''** | '' @ msg a"

text \<open>Lines 121 to 123: the \<^verbatim>\<open>if\<close>/\<^verbatim>\<open>elif\<close>/\<^verbatim>\<open>else\<close> on the tag.\<close>

definition render_alert :: "alert \<Rightarrow> element" where
  "render_alert a =
     (if type a = ''error'' then StError (row_text a)
      else if type a = ''success'' then StSuccess (row_text a)
      else StInfo (row_text a))"

text \<open>The \<^verbatim>\<open>for\<close> loop of line 120: each row is emitted after those before it.\<close>

fun feed_loop :: "alert list \<Rightarrow> element list \<Rightarrow> element list" where
  "feed_loop [] out = out"
| "feed_loop (a # as) out = feed_loop as (out @ [render_alert a])"

definition alert_feed_view :: "alert list \<Rightarrow> element list" where
  "alert_feed_view xs = feed_loop (topN 6 xs) []"

section \<open>Session state and the script\<close>

text \<open>
  \<^verbatim>\<open>st.session_state\<close> is a dictionary that outlives one run of the script. The
  script stores alert lists in it and nothing else. Reading a key that is absent
  raises, which is \<open>None\<close> in the functions below.
\<close>

type_synonym session_state = "string \<rightharpoonup> alert list"

text \<open>Lines 28 to 32.\<close>

definition init_state :: "session_state \<Rightarrow> session_state" where
  "init_state ss =
     (if ss ''alerts'' = None then ss(''alerts'' \<mapsto> seed_alerts) else ss)"

text \<open>Lines 116 to 118: the button, \<open>clicked\<close> being what \<^verbatim>\<open>st.button\<close> returns.\<close>

definition button_step :: "bool \<Rightarrow> datetime \<Rightarrow> session_state \<Rightarrow> session_state option" where
  "button_step clicked now ss =
     (if clicked then
        (case ss ''alerts'' of
           None \<Rightarrow> None
         | Some xs \<Rightarrow> Some (ss(''alerts'' \<mapsto> simulation_trigger now xs)))
      else Some ss)"

text \<open>
  The expression \<^verbatim>\<open>st.session_state.alerts[:n]\<close> of line 120 (there with
  \<open>n = 6\<close>): the slice that is read, and the session state after the read.
\<close>

definition read_top :: "int \<Rightarrow> session_state \<Rightarrow> (alert list \<times> session_state) option" where
  "read_top n ss =
     (case ss ''alerts'' of
        None \<Rightarrow> None
      | Some xs \<Rightarrow> Some (topN n xs, ss))"

text \<open>Lines 120 to 123: the rows emitted, and the session state after them.\<close>

definition render_feed :: "session_state \<Rightarrow> (element list \<times> session_state) option" where
  "render_feed ss =
     (case read_top 6 ss of
        None \<Rightarrow> None
      | Some (rows, ss1) \<Rightarrow> Some (feed_loop rows [], ss1))"

text \<open>The render run twice in a row, nothing in between: both outputs and the last state.\<close>

definition render_twice :: "session_state \<Rightarrow> (element list \<times> element list \<times> session_state) option" where
  "render_twice ss =
     (case render_feed ss of
        None \<Rightarrow> None
      | Some (out1, ss1) \<Rightarrow>
          (case render_feed ss1 of
             None \<Rightarrow> None
           | Some (out2, ss2) \<Rightarrow> Some (out1, out2, ss2)))"

text \<open>Lines 114 to 123: the feed column.\<close>

definition feed_col :: "bool \<Rightarrow> datetime \<Rightarrow> session_state \<Rightarrow> (element list \<times> session_state) option" where
  "feed_col clicked now ss =
     (case button_step clicked now ss of
        None \<Rightarrow> None
      | Some ss' \<Rightarrow> render_feed ss')"

text \<open>
  One run of the script, as far as the alerts go: the guarded initialisation, then the
  feed column when the page chosen in the sidebar is the command centre. The other
  pages neither read nor write the alerts and emit no feed row.
\<close>

definition run_script :: "string \<Rightarrow> bool \<Rightarrow> datetime \<Rightarrow> session_state \<Rightarrow> (element list \<times> session_state) option" where
  "run_script nav clicked now ss =
     (let ss1 = init_state ss
      in if nav = ''Live Command Center'' then feed_col clicked now ss1
         else Some ([], ss1))"

text \<open>The number of alerts a session holds; none before the first run.\<close>

definition store_size :: "session_state \<Rightarrow> nat" where
  "store_size ss = (case ss ''alerts'' of None \<Rightarrow> 0 | Some xs \<Rightarrow> length xs)"

text \<open>
  The records in the order they entered the list: the two of the literal, left to
  right as Python builds a list display, then one for each press of the button.
\<close>

definition insertion_log :: "datetime list \<Rightarrow> alert list" where
  "insertion_log ts = seed_alerts @ map new_alert ts"


section \<open>Basic facts\<close>

lemma list_insert_0: "list_insert 0 x xs = x # xs"
  by (simp add: list_insert_def)

lemma prepend_Cons: "prepend r xs = r # xs"
  by (simp add: prepend_def list_insert_0)

lemma simulation_trigger_Cons: "simulation_trigger now xs = new_alert now # xs"
  by (simp add: simulation_trigger_def prepend_Cons)

lemma triggers_eq: "triggers ts xs = rev (map new_alert ts) @ xs"
  by (induction ts arbitrary: xs) (simp_all add: simulation_trigger_Cons)

lemma slice_to_nonneg: "0 \<le> n \<Longrightarrow> slice_to n xs = take (nat n) xs"
  by (simp add: slice_to_def Let_def min_def)

lemma feed_loop_eq: "feed_loop xs out = out @ map render_alert xs"
  by (induction xs arbitrary: out) simp_all

lemma topN_nonneg: "0 \<le> n \<Longrightarrow> topN n xs = take (nat n) xs"
  by (simp add: topN_def slice_to_nonneg)

lemma alert_feed_view_eq: "alert_feed_view xs = map render_alert (take 6 xs)"
  by (simp add: alert_feed_view_def feed_loop_eq topN_nonneg)

lemma read_top_present: "read_top n (ss(''alerts'' \<mapsto> xs)) = Some (topN n xs, ss(''alerts'' \<mapsto> xs))"
  by (simp add: read_top_def)

lemma render_feed_present:
  "render_feed (ss(''alerts'' \<mapsto> xs)) = Some (alert_feed_view xs, ss(''alerts'' \<mapsto> xs))"
  by (simp add: render_feed_def read_top_present alert_feed_view_def)

lemma init_state_present: "init_state (ss(''alerts'' \<mapsto> xs)) = ss(''alerts'' \<mapsto> xs)"
  by (simp add: init_state_def)

lemma init_state_cases:
  "init_state ss = ss(''alerts'' \<mapsto> (case ss ''alerts'' of None \<Rightarrow> seed_alerts | Some xs \<Rightarrow> xs))"
  by (cases "ss ''alerts''") (auto simp: init_state_def)

lemma new_alert_noon:
  "new_alert \<lparr>hour = 12, minute = 0, second = 0\<rparr> =
     \<lparr>time = ''12:00:00'', msg = ''Density Spike: Gate 4'', type = ''error''\<rparr>"
  by (simp add: new_alert_def strftime_HMS_def two_digits_def)

lemma button_step_present:
  "button_step clicked now (ss(''alerts'' \<mapsto> xs)) =
     Some (ss(''alerts'' \<mapsto> (if clicked then simulation_trigger now xs else xs)))"
  by (simp add: button_step_def)

lemma feed_col_present:
  "feed_col clicked now (ss(''alerts'' \<mapsto> xs)) =
     Some (alert_feed_view (if clicked then simulation_trigger now xs else xs),
           ss(''alerts'' \<mapsto> (if clicked then simulation_trigger now xs else xs)))"
  by (simp add: feed_col_def button_step_present render_feed_present)

lemma store_size_present: "store_size (ss(''alerts'' \<mapsto> xs)) = length xs"
  by (simp add: store_size_def)

lemma store_size_init_state: "store_size ss \<le> store_size (init_state ss)"
  by (cases "ss ''alerts''") (simp_all add: store_size_def init_state_def)

section \<open>The end-to-end scenario\<close>

text \<open>
  Claim C1, as stated: from the seeded list, one press of the button at 12:00:00 makes
  the first six rows the new record, then "Sensor Node 14 Active", then "System
  Calibration Complete". The list does not come out in that order.
\<close>

theorem scenario_order_counterexample:
  "topN 6 (simulation_trigger \<lparr>hour = 12, minute = 0, second = 0\<rparr> seed_alerts) \<noteq>
     [\<lparr>time = ''12:00:00'', msg = ''Density Spike: Gate 4'', type = ''error''\<rparr>,
      \<lparr>time = ''19:10:05'', msg = ''Sensor Node 14 Active'', type = ''info''\<rparr>,
      \<lparr>time = ''19:04:22'', msg = ''System Calibration Complete'', type = ''success''\<rparr>]"
  by (simp add: topN_nonneg simulation_trigger_Cons new_alert_noon seed_alerts_def)

text \<open>
  Claim C1, amended: the first run of the script on an empty session stores the literal
  "System Calibration Complete" (19:04:22, success) then "Sensor Node 14 Active"
  (19:10:05, info), and one press of the button at 12:00:00 makes the first six rows
  the new record followed by the two seed records in the literal's order.
\<close>

theorem scenario_order:
  "init_state Map.empty ''alerts'' = Some seed_alerts \<and>
   topN 6 (simulation_trigger \<lparr>hour = 12, minute = 0, second = 0\<rparr> seed_alerts) =
     [\<lparr>time = ''12:00:00'', msg = ''Density Spike: Gate 4'', type = ''error''\<rparr>,
      \<lparr>time = ''19:04:22'', msg = ''System Calibration Complete'', type = ''success''\<rparr>,
      \<lparr>time = ''19:10:05'', msg = ''Sensor Node 14 Active'', type = ''info''\<rparr>]"
  by (simp add: init_state_def topN_nonneg simulation_trigger_Cons new_alert_noon seed_alerts_def)

section \<open>Order of the list\<close>

text \<open>
  Claim C2, as stated: in every state reached from the seeded list by presses of the
  button, element 0 is the record that entered the list last, the list being in reverse
  order of insertion. Before the first press, element 0 is the first record of the
  literal, not the last one, and the list is the literal itself, not its reverse.
\<close>

theorem newest_first_counterexample:
  "hd (triggers [] seed_alerts) \<noteq> last (insertion_log []) \<and>
   triggers [] seed_alerts \<noteq> rev (insertion_log [])"
  by (simp add: insertion_log_def seed_alerts_def)

text \<open>
  Claim C2, amended: in every state reached from the seeded list by at least one press
  of the button, element 0 is the record that entered the list last, and the records
  of the presses come newest first, before the two seed records, which stay in the
  order of the literal.
\<close>

theorem newest_first:
  assumes "ts \<noteq> []"
  shows "triggers ts seed_alerts \<noteq> [] \<and>
         hd (triggers ts seed_alerts) = last (insertion_log ts) \<and>
         triggers ts seed_alerts = rev (map new_alert ts) @ seed_alerts"
proof -
  from assms obtain us u where ts: "ts = us @ [u]"
    by (cases ts rule: rev_cases) auto
  have "triggers ts seed_alerts = new_alert u # rev (map new_alert us) @ seed_alerts"
    by (simp add: triggers_eq ts)
  moreover have "last (insertion_log ts) = new_alert u"
    by (simp add: insertion_log_def ts)
  ultimately show ?thesis
    by (simp add: triggers_eq)
qed

theorem newest_first_witness:
  "[\<lparr>hour = 12, minute = 0, second = 0\<rparr>] \<noteq> [] \<and>
   hd (triggers [\<lparr>hour = 12, minute = 0, second = 0\<rparr>] seed_alerts) =
     last (insertion_log [\<lparr>hour = 12, minute = 0, second = 0\<rparr>]) \<and>
   triggers [\<lparr>hour = 12, minute = 0, second = 0\<rparr>] seed_alerts =
     \<lparr>time = ''12:00:00'', msg = ''Density Spike: Gate 4'', type = ''error''\<rparr> # seed_alerts"
  using newest_first [of "[\<lparr>hour = 12, minute = 0, second = 0\<rparr>]"]
  by (simp add: new_alert_noon simulation_trigger_Cons insertion_log_def)

section \<open>Severity tags in the render\<close>

text \<open>
  Claim C3, as stated: a record whose tag is none of info, success and error gets no
  treatment, the info treatment being kept for the tag info. The tag
  \<^verbatim>\<open>warning\<close> is none of the three and is rendered with \<^verbatim>\<open>st.info\<close>.
\<close>

theorem unknown_severity_counterexample:
  "type \<lparr>time = ''12:00:00'', msg = ''Gate 4'', type = ''warning''\<rparr>
     \<notin> {''info'', ''success'', ''error''} \<and>
   render_alert \<lparr>time = ''12:00:00'', msg = ''Gate 4'', type = ''warning''\<rparr> =
     StInfo ''**12:00:00** | Gate 4'' \<and>
   alert_feed_view [\<lparr>time = ''12:00:00'', msg = ''Gate 4'', type = ''warning''\<rparr>] =
     [StInfo ''**12:00:00** | Gate 4'']"
  by (simp add: alert_feed_view_eq render_alert_def row_text_def)

text \<open>
  Claim C3, amended: the render gives a record tagged error the error treatment, a
  record tagged success the success treatment, and every other tag, info or not, the
  info treatment: the last branch is a default. The text of the row is the same in
  the three cases.
\<close>

theorem render_alert_branches:
  "(type a = ''error'' \<longrightarrow>
      render_alert a = StError (''**'' @ time a @ ''** | '' @ msg a)) \<and>
   (type a = ''success'' \<longrightarrow>
      render_alert a = StSuccess (''**'' @ time a @ ''** | '' @ msg a)) \<and>
   (type a \<noteq> ''error'' \<and> type a \<noteq> ''success'' \<longrightarrow>
      render_alert a = StInfo (''**'' @ time a @ ''** | '' @ msg a))"
  by (simp add: render_alert_def row_text_def)

theorem render_alert_branches_witness:
  "type \<lparr>time = ''12:00:00'', msg = ''Density Spike: Gate 4'', type = ''error''\<rparr> = ''error'' \<and>
   render_alert \<lparr>time = ''12:00:00'', msg = ''Density Spike: Gate 4'', type = ''error''\<rparr> =
     StError ''**12:00:00** | Density Spike: Gate 4'' \<and>
   type \<lparr>time = ''19:04:22'', msg = ''System Calibration Complete'', type = ''success''\<rparr> =
     ''success'' \<and>
   render_alert \<lparr>time = ''19:04:22'', msg = ''System Calibration Complete'', type = ''success''\<rparr> =
     StSuccess ''**19:04:22** | System Calibration Complete'' \<and>
   type \<lparr>time = ''12:00:00'', msg = ''Gate 4'', type = ''warning''\<rparr> \<noteq> ''error'' \<and>
   type \<lparr>time = ''12:00:00'', msg = ''Gate 4'', type = ''warning''\<rparr> \<noteq> ''success'' \<and>
   render_alert \<lparr>time = ''12:00:00'', msg = ''Gate 4'', type = ''warning''\<rparr> =
     StInfo ''**12:00:00** | Gate 4''"
  using
    render_alert_branches [of "\<lparr>time = ''12:00:00'', msg = ''Density Spike: Gate 4'', type = ''error''\<rparr>"]
    render_alert_branches [of "\<lparr>time = ''19:04:22'', msg = ''System Calibration Complete'', type = ''success''\<rparr>"]
    render_alert_branches [of "\<lparr>time = ''12:00:00'', msg = ''Gate 4'', type = ''warning''\<rparr>"]
  by simp

section \<open>Repeated presses of the button\<close>

text \<open>
  Claim C4: pressing the button \<open>k\<close> times on the seeded list gives a list of
  \<open>2 + k\<close> records whose first \<open>k\<close> are the records of the presses, last press
  first, each tagged error with the message "Density Spike: Gate 4"; one press gives
  three records, the first of them tagged error with that message.
\<close>

theorem triggers_k:
  "length (triggers ts seed_alerts) = 2 + length ts \<and>
   take (length ts) (triggers ts seed_alerts) = rev (map new_alert ts) \<and>
   map type (take (length ts) (triggers ts seed_alerts)) = replicate (length ts) ''error'' \<and>
   map msg (take (length ts) (triggers ts seed_alerts)) =
     replicate (length ts) ''Density Spike: Gate 4'' \<and>
   length (triggers [t] seed_alerts) = 3 \<and>
   type (triggers [t] seed_alerts ! 0) = ''error'' \<and>
   msg (triggers [t] seed_alerts ! 0) = ''Density Spike: Gate 4''"
proof -
  have len: "length (triggers ts seed_alerts) = 2 + length ts"
    by (simp add: triggers_eq seed_alerts_def)
  have front: "take (length ts) (triggers ts seed_alerts) = rev (map new_alert ts)"
    by (simp add: triggers_eq)
  have tags: "map type (rev (map new_alert ts)) = replicate (length ts) ''error''"
    by (induction ts) (simp_all add: new_alert_def replicate_append_same)
  have msgs: "map msg (rev (map new_alert ts)) = replicate (length ts) ''Density Spike: Gate 4''"
    by (induction ts) (simp_all add: new_alert_def replicate_append_same)
  have one: "length (triggers [t] seed_alerts) = 3 \<and>
             type (triggers [t] seed_alerts ! 0) = ''error'' \<and>
             msg (triggers [t] seed_alerts ! 0) = ''Density Spike: Gate 4''"
    by (simp add: simulation_trigger_Cons new_alert_def seed_alerts_def)
  from len front tags msgs one show ?thesis
    by presburger
qed

section \<open>Reading the first rows\<close>

text \<open>
  Claim C5: for a bound \<open>n \<ge> 0\<close>, \<open>topN n\<close> is the first \<open>min n size\<close> records
  in their order, and reading it leaves the session state as it was; \<open>topN 0\<close> is
  empty, \<open>topN\<close> of the empty list is empty, and a bound of at least the size gives
  the whole list, the same as the bound \<open>size\<close>.
\<close>

theorem topN_prefix:
  assumes "0 \<le> n"
  shows "topN n xs = take (min (nat n) (length xs)) xs \<and>
         length (topN n xs) = min (nat n) (length xs) \<and>
         read_top n (ss(''alerts'' \<mapsto> xs)) = Some (topN n xs, ss(''alerts'' \<mapsto> xs)) \<and>
         topN 0 xs = [] \<and>
         topN n [] = [] \<and>
         (int (length xs) \<le> n \<longrightarrow>
            topN n xs = xs \<and> topN n xs = topN (int (length xs)) xs)"
  using assms by (auto simp: topN_nonneg read_top_present min_def)

theorem topN_prefix_witness:
  "(0::int) \<le> 6 \<and> int (length seed_alerts) \<le> 6 \<and>
   topN 6 seed_alerts = seed_alerts \<and>
   topN 6 seed_alerts = topN (int (length seed_alerts)) seed_alerts \<and>
   length (topN 6 seed_alerts) = 2 \<and>
   read_top 6 [''alerts'' \<mapsto> seed_alerts] = Some (seed_alerts, [''alerts'' \<mapsto> seed_alerts])"
proof -
  have len: "length seed_alerts = 2"
    by (simp add: seed_alerts_def)
  have h: "(0::int) \<le> 6"
    by simp
  from topN_prefix [OF h, of seed_alerts Map.empty] show ?thesis
    by (auto simp: len)
qed

section \<open>The rendered rows\<close>




text \<open>
  Claim C7: the render is a function of the alerts alone. Run twice in a row it emits
  the same rows both times and leaves the session state as it found it; so does a
  whole run of the script on the command centre page with the button not pressed,
  at whatever time.
\<close>

theorem render_idempotent:
  "render_feed (ss(''alerts'' \<mapsto> xs)) = Some (alert_feed_view xs, ss(''alerts'' \<mapsto> xs)) \<and>
   render_twice (ss(''alerts'' \<mapsto> xs)) =
     Some (alert_feed_view xs, alert_feed_view xs, ss(''alerts'' \<mapsto> xs)) \<and>
   run_script ''Live Command Center'' False now (ss(''alerts'' \<mapsto> xs)) =
     Some (alert_feed_view xs, ss(''alerts'' \<mapsto> xs))"
  by (simp add: render_twice_def render_feed_present run_script_def Let_def
      init_state_present feed_col_present)

section \<open>Inserting at the front\<close>

text \<open>
  Claim C8: \<open>prepend\<close> is total, on a list of any length; afterwards element 0 is
  the new record and the record that was at index \<open>i\<close> is at index \<open>i + 1\<close>.
\<close>

theorem prepend_shifts:
  "prepend r xs ! 0 = r \<and>
   length (prepend r xs) = length xs + 1 \<and>
   (\<forall>i < length xs. prepend r xs ! (i + 1) = xs ! i)"
  by (simp add: prepend_Cons)

theorem prepend_shifts_witness:
  "(1::nat) < length seed_alerts \<and>
   prepend (new_alert \<lparr>hour = 12, minute = 0, second = 0\<rparr>) seed_alerts ! (1 + 1) =
     \<lparr>time = ''19:10:05'', msg = ''Sensor Node 14 Active'', type = ''info''\<rparr> \<and>
   prepend (new_alert \<lparr>hour = 12, minute = 0, second = 0\<rparr>) seed_alerts ! 0 =
     \<lparr>time = ''12:00:00'', msg = ''Density Spike: Gate 4'', type = ''error''\<rparr>"
proof -
  have h: "(1::nat) < length seed_alerts"
    by (simp add: seed_alerts_def)
  have "seed_alerts ! 1 = \<lparr>time = ''19:10:05'', msg = ''Sensor Node 14 Active'', type = ''info''\<rparr>"
    by (simp add: seed_alerts_def)
  with h prepend_shifts [of "new_alert \<lparr>hour = 12, minute = 0, second = 0\<rparr>" seed_alerts]
  show ?thesis
    by (simp add: new_alert_noon)
qed

section \<open>Size of the list\<close>

text \<open>
  Claim C9: no operation makes the list shorter. A press of the button makes it one
  longer; reading the first rows and rendering leave the session state alone; and a
  whole run of the script, on any page, pressed or not, from any session state, ends
  with at least as many alerts as it began with.
\<close>

theorem store_never_shrinks:
  "length (simulation_trigger now xs) = length xs + 1 \<and>
   button_step True now (ss(''alerts'' \<mapsto> xs)) =
     Some (ss(''alerts'' \<mapsto> simulation_trigger now xs)) \<and>
   read_top n (ss(''alerts'' \<mapsto> xs)) = Some (topN n xs, ss(''alerts'' \<mapsto> xs)) \<and>
   render_feed (ss(''alerts'' \<mapsto> xs)) = Some (alert_feed_view xs, ss(''alerts'' \<mapsto> xs)) \<and>
   (\<exists>out ss'. run_script nav clicked now ss = Some (out, ss') \<and>
      store_size ss \<le> store_size ss' \<and>
      store_size ss' =
        store_size (init_state ss) + (if nav = ''Live Command Center'' \<and> clicked then 1 else 0))"
proof -
  obtain ys where ys: "init_state ss = ss(''alerts'' \<mapsto> ys)"
    using init_state_cases by blast
  have le: "store_size ss \<le> length ys"
    using store_size_init_state [of ss] by (simp add: ys store_size_present)
  have run: "\<exists>out ss'. run_script nav clicked now ss = Some (out, ss') \<and>
      store_size ss \<le> store_size ss' \<and>
      store_size ss' =
        store_size (init_state ss) + (if nav = ''Live Command Center'' \<and> clicked then 1 else 0)"
    using le
    by (simp add: run_script_def Let_def ys feed_col_present store_size_present
        simulation_trigger_Cons)
  have "length (simulation_trigger now xs) = length xs + 1"
    by (simp add: simulation_trigger_Cons)
  with run show ?thesis
    by (simp add: button_step_present read_top_present render_feed_present)
qed

section \<open>Initialisation\<close>

text \<open>
  Claim C10: the initialisation is guarded. With an alerts list in the session state
  it changes nothing; it stores the two seed records only when there is none; run a
  second time it changes nothing; and a run of the script with the button not pressed
  keeps the list it found.
\<close>

theorem init_state_guarded:
  "init_state (ss(''alerts'' \<mapsto> xs)) = ss(''alerts'' \<mapsto> xs) \<and>
   init_state (init_state ss) = init_state ss \<and>
   (init_state ss = ss \<or>
      ss ''alerts'' = None \<and> init_state ss = ss(''alerts'' \<mapsto> seed_alerts)) \<and>
   init_state Map.empty = [''alerts'' \<mapsto> seed_alerts] \<and>
   (\<exists>out. run_script nav False now (ss(''alerts'' \<mapsto> xs)) =
      Some (out, ss(''alerts'' \<mapsto> xs)))"
proof -
  have "init_state (init_state ss) = init_state ss"
    by (simp add: init_state_def)
  moreover have "init_state ss = ss \<or>
      ss ''alerts'' = None \<and> init_state ss = ss(''alerts'' \<mapsto> seed_alerts)"
    by (simp add: init_state_def)
  moreover have "\<exists>out. run_script nav False now (ss(''alerts'' \<mapsto> xs)) =
      Some (out, ss(''alerts'' \<mapsto> xs))"
    by (simp add: run_script_def Let_def init_state_present feed_col_present)
  ultimately show ?thesis
    by (simp add: init_state_present) (simp add: init_state_def)
qed

end
